theory Spec2Isabelle
  imports Main
begin

section \<open>Data model\<close>

text \<open>
  The application keeps four relations (users, messages, follow edges, like edges), a
  signed session cookie holding at most the key \<open>curr_user\<close>, and the list of flashed
  messages. Identifiers come from the integer converter of the URL rules and from the
  database's serial columns, so they are natural numbers.
\<close>

record user =
  uid :: nat
  username :: string
  email :: string
  password :: string
  image_url :: string
  header_image_url :: string
  bio :: "string option"
  location :: "string option"

record message =
  mid :: nat
  msg_text :: string
  timestamp :: int
  user_id :: nat

text \<open>
  A follow edge is the pair (user being followed, user following); a like edge is the
  pair (user, message). Both tables are lists: the order of rows and a repeated row are
  visible to \<open>append\<close> and \<open>remove\<close> on the relationship collections.
\<close>

record database =
  users :: "user list"
  messages :: "message list"
  follows :: "(nat \<times> nat) list"
  likes :: "(nat \<times> nat) list"
  next_uid :: nat
  next_mid :: nat

record state =
  db :: database
  session :: "nat option"
  flashes :: "(string \<times> string) list"

text \<open>The data a submitted form carries, one field per name the handlers read.\<close>

record form_fields =
  f_username :: string
  f_password :: string
  f_email :: string
  f_image_url :: string
  f_header_image_url :: string
  f_bio :: string
  f_text :: string

text \<open>
  A request, as far as the handlers look at it: whether it is a submission (POST; the
  other method the rules admit is GET), whether the anti-forgery token of the form
  validates, whether the field validators declared in \<open>forms.py\<close> accept the
  submitted data, the referrer header, the submitted fields and the time at which the
  request is served.
\<close>

record request =
  is_post :: bool
  csrf_ok :: bool
  fields_ok :: bool
  referrer :: "string option"
  form_data :: form_fields
  now :: int

text \<open>
  What \<open>models.py\<close> supplies to the handlers and is not part of the sources: the
  password hash, the check of a password against a stored hash, and the two default
  image URLs of the user columns.
\<close>

record models_env =
  hashpw :: "string \<Rightarrow> string"
  checkpw :: "string \<Rightarrow> string \<Rightarrow> bool"
  default_image_url :: string
  default_header_image_url :: string

datatype py_error = AttributeError | ValueError | UnmappedInstanceError | IntegrityError

datatype ctx_val =
    CForm form_fields
  | CUser user
  | CMessage "message option"
  | CMessages "message list"
  | CIds "nat list"
  | CIdSet "nat set"

text \<open>
  How a call of a view function (or of a helper) ends: with a redirect, with a rendered
  template and its keyword arguments, by returning \<open>None\<close> (falling off the end of the
  function), by \<open>abort(404)\<close>, or by an uncaught exception.
\<close>

datatype result =
    Redirect string
  | Render string "(string \<times> ctx_val) list"
  | PyNone
  | Abort404
  | Raises py_error

section \<open>Helpers\<close>

definition digit_char :: "nat \<Rightarrow> char" where
  "digit_char d = char_of (48 + d)"

fun str_nat :: "nat \<Rightarrow> string" where
  "str_nat n = (if n < 10 then [digit_char n] else str_nat (n div 10) @ [digit_char (n mod 10)])"

declare str_nat.simps [simp del]

definition flash :: "string \<Rightarrow> string \<Rightarrow> state \<Rightarrow> state" where
  "flash msg category s = s\<lparr>flashes := flashes s @ [(msg, category)]\<rparr>"

text \<open>\<open>Model.query.get(id)\<close>: the row with that primary key, or \<open>None\<close>.\<close>

definition query_get_user :: "database \<Rightarrow> nat \<Rightarrow> user option" where
  "query_get_user d i = find (\<lambda>u. uid u = i) (users d)"

definition query_get_message :: "database \<Rightarrow> nat \<Rightarrow> message option" where
  "query_get_message d i = find (\<lambda>m. mid m = i) (messages d)"

text \<open>
  The relationship collections of a user: the rows of the edge table that start at the
  user, joined with the table they point into.
\<close>

definition following :: "database \<Rightarrow> user \<Rightarrow> user list" where
  "following d u =
     List.map_filter (\<lambda>(followed, follower).
        if follower = uid u then query_get_user d followed else None) (follows d)"

definition liked_messages :: "database \<Rightarrow> user \<Rightarrow> message list" where
  "liked_messages d u =
     List.map_filter (\<lambda>(liker, m).
        if liker = uid u then query_get_message d m else None) (likes d)"

text \<open>
  \<open>form.validate_on_submit()\<close>: the request is a submission and the form validates.
  \<open>ForValidationForm\<close> carries the anti-forgery token only; the other forms also run
  their field validators.
\<close>

definition validate_on_submit_token :: "request \<Rightarrow> bool" where
  "validate_on_submit_token req = (is_post req \<and> csrf_ok req)"

definition validate_on_submit :: "request \<Rightarrow> bool" where
  "validate_on_submit req = (is_post req \<and> csrf_ok req \<and> fields_ok req)"

text \<open>Python's \<open>a or b\<close> on strings: the empty string is false.\<close>

definition or_default :: "string \<Rightarrow> string \<Rightarrow> string" where
  "or_default a b = (if a = [] then b else a)"

section \<open>Session\<close>

text \<open>
  \<open>add_user_to_g\<close> runs before every request. The value it leaves in \<open>g.user\<close> is
  \<open>None\<close> when the session has no user key, and also when the key names a user that
  is no longer in the table.
\<close>

definition add_user_to_g :: "state \<Rightarrow> user option" where
  "add_user_to_g s =
     (case session s of
        Some i \<Rightarrow> query_get_user (db s) i
      | None \<Rightarrow> None)"

definition do_login :: "user \<Rightarrow> state \<Rightarrow> state" where
  "do_login u s = s\<lparr>session := Some (uid u)\<rparr>"

definition do_logout :: "state \<Rightarrow> state" where
  "do_logout s = (if session s \<noteq> None then s\<lparr>session := None\<rparr> else s)"

section \<open>Operations of the object-relational mapper\<close>

text \<open>
  \<open>g.user.following.append(followed_user)\<close> followed by the commit. The mapper
  writes the members of the collection that were not in it when it was loaded: a user
  who is followed already gives no new row, any other user gives one row from the
  current user to the user followed. Nothing but these append semantics of the
  collection stands between the handler and the table.
\<close>

definition following_append :: "database \<Rightarrow> user \<Rightarrow> user \<Rightarrow> database" where
  "following_append d gu followed_user =
     (if followed_user \<in> set (following d gu) then d
      else d\<lparr>follows := follows d @ [(uid followed_user, uid gu)]\<rparr>)"

text \<open>
  \<open>g.user.following.remove(followed_user)\<close>: Python's \<open>list.remove\<close> raises
  \<open>ValueError\<close> when the value is not in the collection, which is the case for
  \<open>None\<close>; otherwise the first matching row goes.
\<close>

definition following_remove :: "database \<Rightarrow> user \<Rightarrow> user option \<Rightarrow> py_error + database" where
  "following_remove d gu followed_user =
     (case followed_user of
        None \<Rightarrow> Inl ValueError
      | Some fu \<Rightarrow>
          if fu \<in> set (following d gu)
          then Inr (d\<lparr>follows := remove1 (uid fu, uid gu) (follows d)\<rparr>)
          else Inl ValueError)"

text \<open>
  \<open>g.user.liked_messages.append(msg)\<close> and \<open>g.user.liked_messages.remove(msg)\<close>,
  each followed by the commit. As for the follow table, a message that is in the
  collection already gives no new row. The removal of one row is what the mapper does
  on a table without repeated rows.
\<close>

definition liked_messages_append :: "database \<Rightarrow> user \<Rightarrow> message \<Rightarrow> database" where
  "liked_messages_append d gu msg =
     (if msg \<in> set (liked_messages d gu) then d
      else d\<lparr>likes := likes d @ [(uid gu, mid msg)]\<rparr>)"

definition liked_messages_remove :: "database \<Rightarrow> user \<Rightarrow> message \<Rightarrow> py_error + database" where
  "liked_messages_remove d gu msg =
     (if msg \<in> set (liked_messages d gu)
      then Inr (d\<lparr>likes := remove1 (uid gu, mid msg) (likes d)\<rparr>)
      else Inl ValueError)"

text \<open>
  \<open>g.user.messages.append(Message(text=...))\<close> followed by the commit: the new row
  takes the next serial id, the current time and the current user as its author.
\<close>

definition messages_append :: "database \<Rightarrow> user \<Rightarrow> string \<Rightarrow> int \<Rightarrow> database" where
  "messages_append d gu txt t =
     d\<lparr>messages := messages d @
          [\<lparr>mid = next_mid d, msg_text = txt, timestamp = t, user_id = uid gu\<rparr>],
       next_mid := Suc (next_mid d)\<rparr>"

text \<open>
  Modelled from the spec: the cascades of \<open>models.py\<close>, which is not part of the
  sources. Deleting a message cascades to the likes that point at it; deleting a user
  cascades to the user's messages, likes and follow edges. \<open>db.session.delete(None)\<close>
  is refused by the mapper with \<open>UnmappedInstanceError\<close>.
\<close>

definition session_delete_message :: "database \<Rightarrow> message option \<Rightarrow> py_error + database" where
  "session_delete_message d msg =
     (case msg of
        None \<Rightarrow> Inl UnmappedInstanceError
      | Some m \<Rightarrow>
          Inr (d\<lparr>messages := filter (\<lambda>x. mid x \<noteq> mid m) (messages d),
                 likes := filter (\<lambda>(u, i). i \<noteq> mid m) (likes d)\<rparr>))"

definition session_delete_user :: "database \<Rightarrow> user \<Rightarrow> database" where
  "session_delete_user d u =
     (let gone = map mid (filter (\<lambda>m. user_id m = uid u) (messages d))
      in d\<lparr>users := filter (\<lambda>x. uid x \<noteq> uid u) (users d),
           messages := filter (\<lambda>m. user_id m \<noteq> uid u) (messages d),
           follows := filter (\<lambda>(a, b). a \<noteq> uid u \<and> b \<noteq> uid u) (follows d),
           likes := filter (\<lambda>(a, i). a \<noteq> uid u \<and> i \<notin> set gone) (likes d)\<rparr>)"

text \<open>
  Modelled from the spec: \<open>User.signup\<close> and the uniqueness constraints of
  \<open>models.py\<close>, which is not part of the sources. The spec: signup "creates User
  with hashed password; fails with a uniqueness-violation signal if username or email
  already exists". The definition stands for the two statements of the handler's
  \<open>try\<close> block, the call of \<open>User.signup\<close> and the commit.
\<close>

definition User_signup ::
  "models_env \<Rightarrow> string \<Rightarrow> string \<Rightarrow> string \<Rightarrow> string \<Rightarrow> database \<Rightarrow> py_error + (user \<times> database)" where
  "User_signup env uname pw mail img d =
     (if \<exists>u \<in> set (users d). username u = uname \<or> email u = mail
      then Inl IntegrityError
      else
        (let u = \<lparr>uid = next_uid d, username = uname, email = mail,
                   password = hashpw env pw, image_url = img,
                   header_image_url = default_header_image_url env,
                   bio = None, location = None\<rparr>
         in Inr (u, d\<lparr>users := users d @ [u], next_uid := Suc (next_uid d)\<rparr>)))"

text \<open>
  Modelled from the spec: \<open>User.authenticate\<close> of \<open>models.py\<close>, which "returns the
  User if credentials match, else a failure indicator".
\<close>

definition User_authenticate :: "models_env \<Rightarrow> database \<Rightarrow> string \<Rightarrow> string \<Rightarrow> user option" where
  "User_authenticate env d uname pw =
     (case find (\<lambda>u. username u = uname) (users d) of
        None \<Rightarrow> None
      | Some u \<Rightarrow> if checkpw env (password u) pw then Some u else None)"

text \<open>
  The commit of the profile handler: the five assignments to the current user's row.
  Modelled from the spec: the uniqueness of username and email across users, which the
  commit checks against the other rows.
\<close>

definition commit_profile :: "database \<Rightarrow> user \<Rightarrow> user \<Rightarrow> py_error + database" where
  "commit_profile d gu gu' =
     (if \<exists>u \<in> set (users d). uid u \<noteq> uid gu \<and> (username u = username gu' \<or> email u = email gu')
      then Inl IntegrityError
      else Inr (d\<lparr>users := map (\<lambda>u. if uid u = uid gu then gu' else u) (users d)\<rparr>))"

section \<open>View functions\<close>

text \<open>
  Every view function takes the value of \<open>g.user\<close> that \<open>add_user_to_g\<close> left, the
  request and the state, and gives back how it ended and the state it left.
\<close>

definition unauthorized :: "state \<Rightarrow> result \<times> state" where
  "unauthorized s = (Redirect ''/'', flash ''Access unauthorized.'' ''danger'' s)"

definition signup :: "models_env \<Rightarrow> request \<Rightarrow> state \<Rightarrow> result \<times> state" where
  "signup env req s =
     (let form = form_data req in
      if validate_on_submit req then
        (case User_signup env (f_username form) (f_password form) (f_email form)
                (or_default (f_image_url form) (default_image_url env)) (db s) of
           Inl IntegrityError \<Rightarrow>
             (Render ''users/signup.html'' [(''form'', CForm form)],
              flash ''Username already taken'' ''danger'' s)
         | Inl e \<Rightarrow> (Raises e, s)
         | Inr (u, d') \<Rightarrow> (Redirect ''/'', do_login u (s\<lparr>db := d'\<rparr>)))
      else (Render ''users/signup.html'' [(''form'', CForm form)], s))"

definition logout :: "request \<Rightarrow> state \<Rightarrow> result \<times> state" where
  "logout req s =
     (if validate_on_submit_token req
      then (Redirect ''/login'', flash ''Successfully logged out'' ''success'' (do_logout s))
      else (PyNone, s))"

definition users_show :: "nat \<Rightarrow> user option \<Rightarrow> state \<Rightarrow> result \<times> state" where
  "users_show user_id' g s =
     (case query_get_user (db s) user_id' of
        None \<Rightarrow> (Abort404, s)
      | Some u \<Rightarrow>
          (case g of
             None \<Rightarrow> (Raises AttributeError, s)
           | Some gu \<Rightarrow>
               (Render ''users/show.html''
                  [(''user'', CUser u), (''likes'', CIds (map mid (liked_messages (db s) gu)))], s)))"

definition add_follow :: "nat \<Rightarrow> user option \<Rightarrow> request \<Rightarrow> state \<Rightarrow> result \<times> state" where
  "add_follow follow_id g req s =
     (case g of
        None \<Rightarrow> unauthorized s
      | Some gu \<Rightarrow>
          if validate_on_submit_token req then
            (case query_get_user (db s) follow_id of
               None \<Rightarrow> (Abort404, s)
             | Some followed_user \<Rightarrow>
                 (Redirect (''/users/'' @ str_nat (uid gu) @ ''/following''),
                  s\<lparr>db := following_append (db s) gu followed_user\<rparr>))
          else (PyNone, s))"

definition stop_following :: "nat \<Rightarrow> user option \<Rightarrow> request \<Rightarrow> state \<Rightarrow> result \<times> state" where
  "stop_following follow_id g req s =
     (case g of
        None \<Rightarrow> unauthorized s
      | Some gu \<Rightarrow>
          if validate_on_submit_token req then
            (let followed_user = query_get_user (db s) follow_id in
             case following_remove (db s) gu followed_user of
               Inl e \<Rightarrow> (Raises e, s)
             | Inr d' \<Rightarrow>
                 (Redirect (''/users/'' @ str_nat (uid gu) @ ''/following''), s\<lparr>db := d'\<rparr>))
          else (PyNone, s))"

text \<open>
  \<open>UserUpdateForm(obj=g.user)\<close>: the submitted fields when the request is a submission,
  the attributes of the current user otherwise.
\<close>

definition UserUpdateForm :: "request \<Rightarrow> user \<Rightarrow> form_fields" where
  "UserUpdateForm req gu =
     (if is_post req then form_data req
      else \<lparr>f_username = username gu, f_password = password gu, f_email = email gu,
             f_image_url = image_url gu, f_header_image_url = header_image_url gu,
             f_bio = (case bio gu of None \<Rightarrow> [] | Some b \<Rightarrow> b), f_text = []\<rparr>)"

definition profile :: "models_env \<Rightarrow> user option \<Rightarrow> request \<Rightarrow> state \<Rightarrow> result \<times> state" where
  "profile env g req s =
     (case g of
        None \<Rightarrow> unauthorized s
      | Some gu \<Rightarrow>
          (let form = UserUpdateForm req gu;
               authenticated = User_authenticate env (db s) (username gu) (f_password form);
               s1 = (if validate_on_submit req \<and> authenticated = None
                     then flash ''Unauthorized!'' ''danger'' s else s)
           in if validate_on_submit req \<and> authenticated \<noteq> None then
                (case commit_profile (db s1) gu
                        (gu\<lparr>username := f_username form,
                            email := f_email form,
                            image_url := or_default (f_image_url form) (default_image_url env),
                            header_image_url :=
                              or_default (f_header_image_url form) (default_header_image_url env),
                            bio := Some (f_bio form)\<rparr>) of
                   Inl e \<Rightarrow> (Raises e, s1)
                 | Inr d' \<Rightarrow> (Redirect (''/users/'' @ str_nat (uid gu)), s1\<lparr>db := d'\<rparr>))
              else (Render ''users/edit.html'' [(''form'', CForm form)], s1)))"

definition delete_user :: "user option \<Rightarrow> request \<Rightarrow> state \<Rightarrow> result \<times> state" where
  "delete_user g req s =
     (case g of
        None \<Rightarrow> unauthorized s
      | Some gu \<Rightarrow>
          if validate_on_submit_token req then
            (let s1 = do_logout s
             in (Redirect ''/signup'', s1\<lparr>db := session_delete_user (db s1) gu\<rparr>))
          else (PyNone, s))"

definition messages_add :: "user option \<Rightarrow> request \<Rightarrow> state \<Rightarrow> result \<times> state" where
  "messages_add g req s =
     (case g of
        None \<Rightarrow> unauthorized s
      | Some gu \<Rightarrow>
          (let form = form_data req in
           if validate_on_submit req then
             (Redirect (''/users/'' @ str_nat (uid gu)),
              s\<lparr>db := messages_append (db s) gu (f_text form) (now req)\<rparr>)
           else (Render ''messages/new.html'' [(''form'', CForm form)], s)))"

definition messages_show :: "nat \<Rightarrow> user option \<Rightarrow> state \<Rightarrow> result \<times> state" where
  "messages_show message_id g s =
     (let msg = query_get_message (db s) message_id in
      case g of
        None \<Rightarrow> (Raises AttributeError, s)
      | Some gu \<Rightarrow>
          (Render ''messages/show.html''
             [(''message'', CMessage msg), (''likes'', CIds (map mid (liked_messages (db s) gu)))], s))"

definition messages_destroy :: "nat \<Rightarrow> user option \<Rightarrow> request \<Rightarrow> state \<Rightarrow> result \<times> state" where
  "messages_destroy message_id g req s =
     (case g of
        None \<Rightarrow> unauthorized s
      | Some gu \<Rightarrow>
          if validate_on_submit_token req then
            (let msg = query_get_message (db s) message_id in
             case session_delete_message (db s) msg of
               Inl e \<Rightarrow> (Raises e, s)
             | Inr d' \<Rightarrow> (Redirect (''/users/'' @ str_nat (uid gu)), s\<lparr>db := d'\<rparr>))
          else (Redirect ''/'', flash ''Action unauthorized!'' ''danger'' s))"

text \<open>
  The helper \<open>_handle_like_unlike(message_id, user_id)\<close>. It reads the current user
  from \<open>g\<close>, not from its second argument. Its return value (a redirect on the
  own-message path, \<open>None\<close> otherwise) is dropped by its caller.
\<close>

definition handle_like_unlike :: "nat \<Rightarrow> nat \<Rightarrow> user option \<Rightarrow> state \<Rightarrow> result \<times> state" where
  "handle_like_unlike message_id user_id' g s =
     (case g of
        None \<Rightarrow> (Raises AttributeError, s)
      | Some gu \<Rightarrow>
          (let user_likes_ids = map mid (liked_messages (db s) gu);
               is_liked = (message_id \<in> set user_likes_ids)
           in case query_get_message (db s) message_id of
                None \<Rightarrow> (Abort404, s)
              | Some msg \<Rightarrow>
                  if user_id msg = uid gu then
                    (Redirect (''/users/'' @ str_nat (uid gu)),
                     flash ''Sorry, you cannot like your own message!'' ''danger'' s)
                  else if is_liked then
                    (case liked_messages_remove (db s) gu msg of
                       Inl e \<Rightarrow> (Raises e, s)
                     | Inr d' \<Rightarrow> (PyNone, flash ''message unliked!'' ''danger'' (s\<lparr>db := d'\<rparr>)))
                  else
                    (PyNone,
                     flash ''message liked!'' ''success''
                       (s\<lparr>db := liked_messages_append (db s) gu msg\<rparr>))))"

definition handle_message_like_unlike ::
  "nat \<Rightarrow> user option \<Rightarrow> request \<Rightarrow> state \<Rightarrow> result \<times> state" where
  "handle_message_like_unlike message_id g req s =
     (case g of
        None \<Rightarrow> unauthorized s
      | Some gu \<Rightarrow>
          if validate_on_submit_token req then
            (case handle_like_unlike message_id (uid gu) g s of
               (Abort404, s') \<Rightarrow> (Abort404, s')
             | (Raises e, s') \<Rightarrow> (Raises e, s')
             | (_, s') \<Rightarrow>
                 (case referrer req of
                    None \<Rightarrow> (Redirect ''/'', s')
                  | Some r \<Rightarrow> if r = [] then (Redirect ''/'', s') else (Redirect r, s')))
          else (PyNone, s))"

text \<open>
  The homepage query: messages of the followed users and of the user, newest first, at
  most 100. Rows with the same timestamp are left in table order.
\<close>

definition homepage :: "user option \<Rightarrow> state \<Rightarrow> result \<times> state" where
  "homepage g s =
     (case g of
        Some gu \<Rightarrow>
          (let following_ids = map uid (following (db s) gu);
               msgs = take 100
                        (sort_key (\<lambda>m. - timestamp m)
                           (filter (\<lambda>m. user_id m \<in> set following_ids \<or> user_id m = uid gu)
                              (messages (db s))));
               liked_msg_ids = set (map mid (liked_messages (db s) gu))
           in (Render ''home.html''
                 [(''messages'', CMessages msgs), (''liked_msg_ids'', CIdSet liked_msg_ids)], s))
      | None \<Rightarrow> (Render ''home-anon.html'' [], s))"

section \<open>Routing\<close>

datatype route =
    Signup
  | Logout
  | Users_show nat
  | Add_follow nat
  | Stop_following nat
  | Profile
  | Delete_user
  | Messages_add
  | Messages_show nat
  | Messages_destroy nat
  | Message_like nat
  | Homepage

text \<open>
  The URL rules: a rule declared with \<open>methods=["POST"]\<close> answers any other method
  with 405 without calling the view, and a rule with no \<open>methods\<close> answers GET only.
  The login page, the user listing and the follower, following and likes pages, which
  only read, are not among the routes below.
\<close>

datatype response = Handled result | MethodNotAllowed

definition post_only :: "route \<Rightarrow> bool" where
  "post_only r =
     (case r of
        Logout \<Rightarrow> True | Add_follow _ \<Rightarrow> True | Stop_following _ \<Rightarrow> True
      | Delete_user \<Rightarrow> True | Messages_destroy _ \<Rightarrow> True | Message_like _ \<Rightarrow> True
      | _ \<Rightarrow> False)"

definition get_only :: "route \<Rightarrow> bool" where
  "get_only r =
     (case r of
        Users_show _ \<Rightarrow> True | Messages_show _ \<Rightarrow> True | Homepage \<Rightarrow> True
      | _ \<Rightarrow> False)"

definition view :: "models_env \<Rightarrow> route \<Rightarrow> request \<Rightarrow> state \<Rightarrow> result \<times> state" where
  "view env r req s =
     (let g = add_user_to_g s in
      case r of
        Signup \<Rightarrow> signup env req s
      | Logout \<Rightarrow> logout req s
      | Users_show i \<Rightarrow> users_show i g s
      | Add_follow i \<Rightarrow> add_follow i g req s
      | Stop_following i \<Rightarrow> stop_following i g req s
      | Profile \<Rightarrow> profile env g req s
      | Delete_user \<Rightarrow> delete_user g req s
      | Messages_add \<Rightarrow> messages_add g req s
      | Messages_show i \<Rightarrow> messages_show i g s
      | Messages_destroy i \<Rightarrow> messages_destroy i g req s
      | Message_like i \<Rightarrow> handle_message_like_unlike i g req s
      | Homepage \<Rightarrow> homepage g s)"

definition dispatch :: "models_env \<Rightarrow> route \<Rightarrow> request \<Rightarrow> state \<Rightarrow> response \<times> state" where
  "dispatch env r req s =
     (if (post_only r \<and> \<not> is_post req) \<or> (get_only r \<and> is_post req)
      then (MethodNotAllowed, s)
      else (case view env r req s of (res, s') \<Rightarrow> (Handled res, s')))"

section \<open>The routes the interface calls mutating\<close>

definition mutating_route :: "route \<Rightarrow> bool" where
  "mutating_route r =
     (case r of
        Logout \<Rightarrow> True | Add_follow _ \<Rightarrow> True | Stop_following _ \<Rightarrow> True
      | Profile \<Rightarrow> True | Delete_user \<Rightarrow> True | Messages_add \<Rightarrow> True
      | Messages_destroy _ \<Rightarrow> True | Message_like _ \<Rightarrow> True
      | _ \<Rightarrow> False)"

section \<open>A small database to run the handlers on\<close>

definition ex_env :: models_env where
  "ex_env = \<lparr>hashpw = (\<lambda>p. ''h:'' @ p), checkpw = (\<lambda>h p. h = ''h:'' @ p),
             default_image_url = ''/static/images/default-pic.png'',
             default_header_image_url = ''/static/images/warbler-hero.jpg''\<rparr>"

definition ex_alice :: user where
  "ex_alice = \<lparr>uid = 1, username = ''alice'', email = ''alice@example.com'',
               password = ''h:pw1'', image_url = ''/a.png'', header_image_url = ''/ha.png'',
               bio = None, location = None\<rparr>"

definition ex_bob :: user where
  "ex_bob = \<lparr>uid = 2, username = ''bob'', email = ''bob@example.com'',
             password = ''h:pw2'', image_url = ''/b.png'', header_image_url = ''/hb.png'',
             bio = None, location = None\<rparr>"

definition ex_msg1 :: message where
  "ex_msg1 = \<lparr>mid = 1, msg_text = ''hello'', timestamp = 10, user_id = 1\<rparr>"

definition ex_msg2 :: message where
  "ex_msg2 = \<lparr>mid = 2, msg_text = ''world'', timestamp = 20, user_id = 2\<rparr>"

definition ex_msg3 :: message where
  "ex_msg3 = \<lparr>mid = 3, msg_text = ''again'', timestamp = 30, user_id = 1\<rparr>"

text \<open>Alice follows Bob; nobody likes anything yet.\<close>

definition ex_db :: database where
  "ex_db = \<lparr>users = [ex_alice, ex_bob], messages = [ex_msg1, ex_msg2, ex_msg3],
            follows = [(2, 1)], likes = [], next_uid = 3, next_mid = 4\<rparr>"

definition ex_anon :: state where
  "ex_anon = \<lparr>db = ex_db, session = None, flashes = []\<rparr>"

definition ex_alice_in :: state where
  "ex_alice_in = \<lparr>db = ex_db, session = Some 1, flashes = []\<rparr>"

definition ex_bob_in :: state where
  "ex_bob_in = \<lparr>db = ex_db, session = Some 2, flashes = []\<rparr>"

text \<open>Alice logged in, following Bob and herself.\<close>

definition ex_alice_self :: state where
  "ex_alice_self = \<lparr>db = ex_db\<lparr>follows := [(2, 1), (1, 1)]\<rparr>, session = Some 1, flashes = []\<rparr>"

definition ex_form :: form_fields where
  "ex_form = \<lparr>f_username = ''alice'', f_password = ''pw9'', f_email = ''new@example.com'',
              f_image_url = [], f_header_image_url = [], f_bio = [], f_text = ''hi''\<rparr>"

definition ex_post :: request where
  "ex_post = \<lparr>is_post = True, csrf_ok = True, fields_ok = True, referrer = None,
              form_data = ex_form, now = 40\<rparr>"

definition ex_post_bad_token :: request where
  "ex_post_bad_token = ex_post\<lparr>csrf_ok := False\<rparr>"

definition ex_get :: request where
  "ex_get = ex_post\<lparr>is_post := False\<rparr>"

section \<open>Facts about the lookups and the like collection\<close>

lemma query_get_message_mid: "query_get_message d i = Some m \<Longrightarrow> mid m = i"
  by (auto simp: query_get_message_def find_Some_iff)

lemma query_get_user_uid: "query_get_user d i = Some u \<Longrightarrow> uid u = i"
  by (auto simp: query_get_user_def find_Some_iff)

lemma add_user_to_g_anonymous: "session s = None \<Longrightarrow> add_user_to_g s = None"
  by (simp add: add_user_to_g_def)

lemma add_user_to_g_row:
  assumes "add_user_to_g s = Some gu"
  shows "query_get_user (db s) (uid gu) = Some gu"
proof -
  from assms obtain i where i: "session s = Some i" "query_get_user (db s) i = Some gu"
    by (auto simp: add_user_to_g_def split: option.splits)
  from i(2) have "uid gu = i" by (rule query_get_user_uid)
  with i(2) show ?thesis by simp
qed

lemma set_map_filter_iff: "y \<in> set (List.map_filter f xs) \<longleftrightarrow> (\<exists>x \<in> set xs. f x = Some y)"
  by (induction xs) (auto split: option.splits)

lemma liked_messages_iff:
  "m \<in> set (liked_messages d gu) \<longleftrightarrow>
     (\<exists>j. (uid gu, j) \<in> set (likes d) \<and> query_get_message d j = Some m)"
  unfolding liked_messages_def set_map_filter_iff
  by (force split: if_splits)

lemma msg_in_liked_messages:
  assumes "query_get_message d i = Some m"
  shows "m \<in> set (liked_messages d gu) \<longleftrightarrow> (uid gu, i) \<in> set (likes d)"
proof
  assume "m \<in> set (liked_messages d gu)"
  then obtain j where j: "(uid gu, j) \<in> set (likes d)" "query_get_message d j = Some m"
    by (auto simp: liked_messages_iff)
  from j(2) assms have "j = i"
    by (auto dest!: query_get_message_mid)
  with j(1) show "(uid gu, i) \<in> set (likes d)" by simp
next
  assume "(uid gu, i) \<in> set (likes d)"
  with assms show "m \<in> set (liked_messages d gu)"
    by (auto simp: liked_messages_iff)
qed

lemma is_liked_iff:
  assumes "query_get_message d i = Some m"
  shows "i \<in> set (map mid (liked_messages d gu)) \<longleftrightarrow> (uid gu, i) \<in> set (likes d)"
proof
  assume "i \<in> set (map mid (liked_messages d gu))"
  then obtain m' where m': "m' \<in> set (liked_messages d gu)" "mid m' = i"
    by auto
  then obtain j where j: "(uid gu, j) \<in> set (likes d)" "query_get_message d j = Some m'"
    by (auto simp: liked_messages_iff)
  from j(2) m'(2) have "j = i"
    by (auto dest!: query_get_message_mid)
  with j(1) show "(uid gu, i) \<in> set (likes d)" by simp
next
  assume "(uid gu, i) \<in> set (likes d)"
  with assms have "m \<in> set (liked_messages d gu)"
    by (simp add: msg_in_liked_messages)
  moreover from assms have "mid m = i" by (rule query_get_message_mid)
  ultimately show "i \<in> set (map mid (liked_messages d gu))" by force
qed

text \<open>
  On a message of somebody else the helper is a toggle of one row of the like table:
  the membership test on the ids and the \<open>remove\<close> on the objects agree.
\<close>

lemma handle_like_unlike_other:
  assumes "query_get_message (db s) i = Some m" and "user_id m \<noteq> uid gu"
  shows "handle_like_unlike i n (Some gu) s =
           (if (uid gu, i) \<in> set (likes (db s))
            then (PyNone, flash ''message unliked!'' ''danger''
                    (s\<lparr>db := (db s)\<lparr>likes := remove1 (uid gu, i) (likes (db s))\<rparr>\<rparr>))
            else (PyNone, flash ''message liked!'' ''success''
                    (s\<lparr>db := (db s)\<lparr>likes := likes (db s) @ [(uid gu, i)]\<rparr>\<rparr>)))"
  using assms query_get_message_mid[OF assms(1)]
  by (simp add: handle_like_unlike_def is_liked_iff[OF assms(1)] msg_in_liked_messages[OF assms(1)]
        liked_messages_remove_def liked_messages_append_def del: set_map)

lemma following_iff:
  "u \<in> set (following d gu) \<longleftrightarrow>
     (\<exists>j. (j, uid gu) \<in> set (follows d) \<and> query_get_user d j = Some u)"
  unfolding following_def set_map_filter_iff
  by (force split: if_splits)

lemma user_in_following:
  assumes "query_get_user d i = Some u"
  shows "u \<in> set (following d gu) \<longleftrightarrow> (i, uid gu) \<in> set (follows d)"
proof
  assume "u \<in> set (following d gu)"
  then obtain j where j: "(j, uid gu) \<in> set (follows d)" "query_get_user d j = Some u"
    by (auto simp: following_iff)
  from j(2) assms have "j = i"
    by (auto dest!: query_get_user_uid)
  with j(1) show "(i, uid gu) \<in> set (follows d)" by simp
next
  assume "(i, uid gu) \<in> set (follows d)"
  with assms show "u \<in> set (following d gu)"
    by (auto simp: following_iff)
qed

lemma query_get_message_deleted:
  "query_get_message (d\<lparr>messages := filter (\<lambda>x. mid x \<noteq> i) (messages d), likes := l\<rparr>) i = None"
  by (simp add: query_get_message_def find_None_iff)

text \<open>
  The like table never gets a repeated row: the helper appends an edge only when the
  membership test finds none, and every other view either leaves the table alone or
  deletes rows from it.
\<close>

lemma handle_like_unlike_distinct:
  assumes "distinct (likes (db s))"
  shows "distinct (likes (db (snd (handle_like_unlike i n g s))))"
proof (cases g)
  case None
  with assms show ?thesis by (simp add: handle_like_unlike_def)
next
  case (Some gu)
  show ?thesis
  proof (cases "query_get_message (db s) i")
    case None
    with Some assms show ?thesis by (simp add: handle_like_unlike_def)
  next
    case (Some m)
    show ?thesis
    proof (cases "user_id m = uid gu")
      case True
      with Some \<open>g = Some gu\<close> assms show ?thesis
        by (simp add: handle_like_unlike_def flash_def)
    next
      case False
      with assms show ?thesis
        unfolding \<open>g = Some gu\<close> handle_like_unlike_other [OF Some False]
        by (simp add: flash_def)
    qed
  qed
qed

lemma view_distinct_likes:
  assumes "distinct (likes (db s))"
  shows "distinct (likes (db (snd (view env r req s))))"
proof (cases r)
  case Signup
  with assms show ?thesis
    by (auto simp: view_def signup_def User_signup_def flash_def do_login_def Let_def
          split: sum.splits py_error.splits prod.splits if_splits)
next
  case Logout
  with assms show ?thesis
    by (simp add: view_def logout_def flash_def do_logout_def)
next
  case (Users_show i)
  with assms show ?thesis
    by (simp add: view_def users_show_def split: option.splits)
next
  case (Add_follow i)
  with assms show ?thesis
    by (simp add: view_def add_follow_def unauthorized_def flash_def following_append_def
          split: option.splits)
next
  case (Stop_following i)
  with assms show ?thesis
    by (auto simp: view_def stop_following_def unauthorized_def flash_def following_remove_def
          split: option.splits sum.splits if_splits)
next
  case Profile
  with assms show ?thesis
    by (auto simp: view_def profile_def unauthorized_def flash_def commit_profile_def Let_def
          split: option.splits sum.splits if_splits)
next
  case Delete_user
  with assms show ?thesis
    by (simp add: view_def delete_user_def unauthorized_def flash_def do_logout_def
          session_delete_user_def Let_def split: option.splits)
next
  case Messages_add
  with assms show ?thesis
    by (simp add: view_def messages_add_def unauthorized_def flash_def messages_append_def
          Let_def split: option.splits)
next
  case (Messages_show i)
  with assms show ?thesis
    by (simp add: view_def messages_show_def split: option.splits)
next
  case (Messages_destroy i)
  with assms show ?thesis
    by (auto simp: view_def messages_destroy_def unauthorized_def flash_def
          session_delete_message_def split: option.splits sum.splits)
next
  case (Message_like i)
  show ?thesis
  proof (cases "add_user_to_g s")
    case None
    with Message_like assms show ?thesis
      by (simp add: view_def handle_message_like_unlike_def unauthorized_def flash_def)
  next
    case (Some gu)
    from handle_like_unlike_distinct [OF assms, of i "uid gu" "Some gu"]
    show ?thesis
      unfolding Message_like
      by (cases "handle_like_unlike i (uid gu) (Some gu) s")
         (auto simp: view_def handle_message_like_unlike_def Some assms
            split: result.splits option.splits)
  qed
next
  case Homepage
  with assms show ?thesis
    by (simp add: view_def homepage_def Let_def split: option.splits)
qed

section \<open>The own-message rule of the like route\<close>

text \<open>
  C2. For a logged-in user and a message that the same user wrote, the helper
  \<open>_handle_like_unlike\<close> flashes the rejection message and returns before it touches
  the like collection or commits. A POST to the like route with a validated token
  therefore leaves the like table, the whole database and the session key as they
  were, and adds exactly the rejection message to the flashed messages.
\<close>

theorem own_message_like_rejected:
  assumes "add_user_to_g s = Some gu" and "query_get_message (db s) i = Some m"
    and "user_id m = uid gu" and "is_post req" and "csrf_ok req"
  shows "handle_like_unlike i (uid gu) (Some gu) s =
           (Redirect (''/users/'' @ str_nat (uid gu)),
            flash ''Sorry, you cannot like your own message!'' ''danger'' s)
       \<and> snd (dispatch env (Message_like i) req s) =
           flash ''Sorry, you cannot like your own message!'' ''danger'' s
       \<and> likes (db (snd (dispatch env (Message_like i) req s))) = likes (db s)
       \<and> db (snd (dispatch env (Message_like i) req s)) = db s
       \<and> session (snd (dispatch env (Message_like i) req s)) = session s
       \<and> flashes (snd (dispatch env (Message_like i) req s)) =
           flashes s @ [(''Sorry, you cannot like your own message!'', ''danger'')]"
proof -
  have helper: "handle_like_unlike i (uid gu) (Some gu) s =
           (Redirect (''/users/'' @ str_nat (uid gu)),
            flash ''Sorry, you cannot like your own message!'' ''danger'' s)"
    using assms(2,3) by (simp add: handle_like_unlike_def)
  have tok: "validate_on_submit_token req"
    using assms(4,5) by (simp add: validate_on_submit_token_def)
  have route: "snd (dispatch env (Message_like i) req s) =
           flash ''Sorry, you cannot like your own message!'' ''danger'' s"
    using assms(1,4) tok helper
    by (simp add: dispatch_def view_def post_only_def get_only_def handle_message_like_unlike_def
          split: option.splits)
  show ?thesis
    unfolding route using helper by (simp add: flash_def)
qed

theorem own_message_like_rejected_witness:
  "handle_like_unlike 1 1 (Some ex_alice) ex_alice_in =
     (Redirect (''/users/'' @ str_nat 1),
      flash ''Sorry, you cannot like your own message!'' ''danger'' ex_alice_in)
   \<and> likes (db (snd (dispatch ex_env (Message_like 1) ex_post ex_alice_in))) = []
   \<and> flashes (snd (dispatch ex_env (Message_like 1) ex_post ex_alice_in)) =
        [(''Sorry, you cannot like your own message!'', ''danger'')]"
proof -
  have g: "add_user_to_g ex_alice_in = Some ex_alice"
    by (simp add: add_user_to_g_def query_get_user_def ex_alice_in_def ex_db_def ex_alice_def)
  have q: "query_get_message (db ex_alice_in) 1 = Some ex_msg1"
    by (simp add: query_get_message_def ex_alice_in_def ex_db_def ex_msg1_def)
  have o: "user_id ex_msg1 = uid ex_alice"
    by (simp add: ex_msg1_def ex_alice_def)
  have p: "is_post ex_post" and t: "csrf_ok ex_post"
    by (simp_all add: ex_post_def)
  have u: "uid ex_alice = 1" by (simp add: ex_alice_def)
  have l: "likes (db ex_alice_in) = []" and f: "flashes ex_alice_in = []"
    by (simp_all add: ex_alice_in_def ex_db_def)
  note th = own_message_like_rejected [OF g q o p t, of ex_env, unfolded u l f]
  from th show ?thesis
    unfolding append_Nil by blast
qed

section \<open>The like toggle\<close>

text \<open>
  C3. For a user and a message that somebody else wrote, two calls of
  \<open>_handle_like_unlike\<close> in succession bring the set of like edges back to what it
  was, and the first call alone does change it. The like table has no repeated row,
  which is what every view maintains (\<open>view_distinct_likes\<close>) and what the model of
  \<open>remove\<close> on the collection stands on.
\<close>

theorem like_toggle_twice_restores:
  assumes "query_get_message (db s) i = Some m" and "user_id m \<noteq> uid gu"
    and "distinct (likes (db s))"
  shows "set (likes (db (snd (handle_like_unlike i n (Some gu)
                 (snd (handle_like_unlike i n (Some gu) s)))))) = set (likes (db s))
       \<and> set (likes (db (snd (handle_like_unlike i n (Some gu) s)))) \<noteq> set (likes (db s))"
proof -
  let ?e = "(uid gu, i)"
  obtain s1 where s1: "s1 = snd (handle_like_unlike i n (Some gu) s)" by simp
  have msgs: "messages (db s1) = messages (db s)"
    by (simp add: s1 handle_like_unlike_other[OF assms(1,2)] flash_def)
  then have m1: "query_get_message (db s1) i = Some m"
    using assms(1) by (simp add: query_get_message_def)
  note second = handle_like_unlike_other[OF m1 assms(2), of n]
  show ?thesis
  proof (cases "?e \<in> set (likes (db s))")
    case True
    then have l1: "likes (db s1) = remove1 ?e (likes (db s))"
      by (simp add: s1 handle_like_unlike_other[OF assms(1,2)] flash_def)
    with assms(3) have out: "?e \<notin> set (likes (db s1))" by simp
    then have "likes (db (snd (handle_like_unlike i n (Some gu) s1))) = likes (db s1) @ [?e]"
      by (simp add: second flash_def)
    with l1 True assms(3) out show ?thesis
      unfolding s1[symmetric] by auto
  next
    case False
    then have l1: "likes (db s1) = likes (db s) @ [?e]"
      by (simp add: s1 handle_like_unlike_other[OF assms(1,2)] flash_def)
    then have "likes (db (snd (handle_like_unlike i n (Some gu) s1))) = remove1 ?e (likes (db s1))"
      by (simp add: second flash_def)
    with l1 False show ?thesis
      unfolding s1[symmetric] by (auto simp add: remove1_append)
  qed
qed

theorem like_toggle_twice_restores_witness:
  "set (likes (db (snd (handle_like_unlike 2 1 (Some ex_alice)
          (snd (handle_like_unlike 2 1 (Some ex_alice) ex_alice_in)))))) = {}
   \<and> set (likes (db (snd (handle_like_unlike 2 1 (Some ex_alice) ex_alice_in)))) \<noteq> {}"
proof -
  have q: "query_get_message (db ex_alice_in) 2 = Some ex_msg2"
    by (simp add: query_get_message_def ex_alice_in_def ex_db_def ex_msg1_def ex_msg2_def)
  have o: "user_id ex_msg2 \<noteq> uid ex_alice"
    by (simp add: ex_msg2_def ex_alice_def)
  have l: "likes (db ex_alice_in) = []"
    by (simp add: ex_alice_in_def ex_db_def)
  have d: "distinct (likes (db ex_alice_in))"
    by (simp add: l)
  from like_toggle_twice_restores [OF q o d, of 1] show ?thesis
    unfolding l by simp
qed

section \<open>A token that fails validation\<close>

text \<open>
  C10. An authenticated POST to \<open>/logout\<close>, \<open>/users/follow/<id>\<close>, \<open>/users/delete\<close>
  or \<open>/messages/<id>/like\<close> whose anti-forgery token does not validate falls through
  the only \<open>if\<close> of the view: the view returns \<open>None\<close>, and database, session and
  flashed messages are as before.
\<close>

theorem invalid_token_returns_none:
  assumes "add_user_to_g s \<noteq> None" and "is_post req" and "\<not> csrf_ok req"
    and "r \<in> {Logout, Add_follow i, Delete_user, Message_like j}"
  shows "dispatch env r req s = (Handled PyNone, s)"
proof -
  from assms(1) obtain gu where gu: "add_user_to_g s = Some gu" by auto
  from assms(3) have tok: "\<not> validate_on_submit_token req"
    by (simp add: validate_on_submit_token_def)
  from assms(4) consider "r = Logout" | "r = Add_follow i" | "r = Delete_user" | "r = Message_like j"
    by auto
  then show ?thesis
  proof cases
    case 1
    with assms(2) tok show ?thesis
      by (simp add: dispatch_def view_def post_only_def get_only_def logout_def)
  next
    case 2
    with assms(2) tok gu show ?thesis
      by (simp add: dispatch_def view_def post_only_def get_only_def add_follow_def)
  next
    case 3
    with assms(2) tok gu show ?thesis
      by (simp add: dispatch_def view_def post_only_def get_only_def delete_user_def)
  next
    case 4
    with assms(2) tok gu show ?thesis
      by (simp add: dispatch_def view_def post_only_def get_only_def handle_message_like_unlike_def)
  qed
qed

theorem invalid_token_returns_none_witness:
  "dispatch ex_env Logout ex_post_bad_token ex_alice_in = (Handled PyNone, ex_alice_in)
   \<and> dispatch ex_env (Add_follow 2) ex_post_bad_token ex_alice_in = (Handled PyNone, ex_alice_in)
   \<and> dispatch ex_env Delete_user ex_post_bad_token ex_alice_in = (Handled PyNone, ex_alice_in)
   \<and> dispatch ex_env (Message_like 2) ex_post_bad_token ex_alice_in = (Handled PyNone, ex_alice_in)"
proof -
  have g: "add_user_to_g ex_alice_in \<noteq> None"
    by (simp add: add_user_to_g_def query_get_user_def ex_alice_in_def ex_db_def ex_alice_def)
  have p: "is_post ex_post_bad_token" and t: "\<not> csrf_ok ex_post_bad_token"
    by (simp_all add: ex_post_bad_token_def ex_post_def)
  note th = invalid_token_returns_none [OF g p t, of _ 2 2 ex_env]
  show ?thesis
    by (intro conjI th) simp_all
qed

section \<open>The guards of the mutating routes\<close>

text \<open>
  C1. No mutating route changes the database or the session key on a POST
  whose anti-forgery token does not validate. Seven of them (\<open>/users/follow/<id>\<close>,
  \<open>/users/stop-following/<id>\<close>, \<open>/users/profile\<close>, \<open>/users/delete\<close>,
  \<open>/messages/new\<close>, \<open>/messages/<id>/delete\<close>, \<open>/messages/<id>/like\<close>) answer a
  request without a current user by flashing "Access unauthorized." and redirecting to
  \<open>/\<close>, with nothing else changed. \<open>/logout\<close> has no such guard: without a session
  key and with a validated token it flashes "Successfully logged out" and redirects to
  \<open>/login\<close>; there is no key to delete, so database and session stay as they were.
\<close>

theorem mutating_routes_guarded:
  assumes "mutating_route r" and "is_post req"
  shows "(\<not> csrf_ok req \<longrightarrow>
            db (snd (dispatch env r req s)) = db s
          \<and> session (snd (dispatch env r req s)) = session s)
       \<and> (add_user_to_g s = None \<and> r \<noteq> Logout \<longrightarrow>
            dispatch env r req s =
              (Handled (Redirect ''/''), flash ''Access unauthorized.'' ''danger'' s))
       \<and> (session s = None \<and> csrf_ok req \<and> r = Logout \<longrightarrow>
            dispatch env r req s =
              (Handled (Redirect ''/login''), flash ''Successfully logged out'' ''success'' s))"
proof (cases r)
  case Logout
  with assms(2) show ?thesis
    by (simp add: dispatch_def view_def post_only_def get_only_def logout_def
          validate_on_submit_token_def do_logout_def)
next
  case (Add_follow i)
  with assms(2) show ?thesis
    by (simp add: dispatch_def view_def post_only_def get_only_def add_follow_def
          validate_on_submit_token_def unauthorized_def flash_def split: option.splits)
next
  case (Stop_following i)
  with assms(2) show ?thesis
    by (simp add: dispatch_def view_def post_only_def get_only_def stop_following_def
          validate_on_submit_token_def unauthorized_def flash_def split: option.splits)
next
  case Profile
  with assms(2) show ?thesis
    by (simp add: dispatch_def view_def post_only_def get_only_def profile_def
          validate_on_submit_def unauthorized_def flash_def Let_def split: option.splits)
next
  case Delete_user
  with assms(2) show ?thesis
    by (simp add: dispatch_def view_def post_only_def get_only_def delete_user_def
          validate_on_submit_token_def unauthorized_def flash_def split: option.splits)
next
  case Messages_add
  with assms(2) show ?thesis
    by (simp add: dispatch_def view_def post_only_def get_only_def messages_add_def
          validate_on_submit_def unauthorized_def flash_def Let_def split: option.splits)
next
  case (Messages_destroy i)
  with assms(2) show ?thesis
    by (simp add: dispatch_def view_def post_only_def get_only_def messages_destroy_def
          validate_on_submit_token_def unauthorized_def flash_def split: option.splits)
next
  case (Message_like i)
  with assms(2) show ?thesis
    by (simp add: dispatch_def view_def post_only_def get_only_def handle_message_like_unlike_def
          validate_on_submit_token_def unauthorized_def flash_def Let_def split: option.splits)
qed (use assms(1) in \<open>simp_all add: mutating_route_def\<close>)


theorem mutating_routes_guarded_witness:
  "dispatch ex_env (Add_follow 2) ex_post ex_anon =
     (Handled (Redirect ''/''), flash ''Access unauthorized.'' ''danger'' ex_anon)
   \<and> dispatch ex_env Logout ex_post ex_anon =
     (Handled (Redirect ''/login''), flash ''Successfully logged out'' ''success'' ex_anon)
   \<and> db (snd (dispatch ex_env (Messages_destroy 1) ex_post_bad_token ex_alice_in)) = db ex_alice_in
   \<and> session (snd (dispatch ex_env (Messages_destroy 1) ex_post_bad_token ex_alice_in)) =
       session ex_alice_in"
proof -
  have m1: "mutating_route (Add_follow 2)" and m2: "mutating_route Logout"
    and m3: "mutating_route (Messages_destroy 1)"
    by (simp_all add: mutating_route_def)
  have p: "is_post ex_post" and t: "csrf_ok ex_post"
    by (simp_all add: ex_post_def)
  have p': "is_post ex_post_bad_token" and t': "\<not> csrf_ok ex_post_bad_token"
    by (simp_all add: ex_post_bad_token_def ex_post_def)
  have g: "add_user_to_g ex_anon = None" and n: "session ex_anon = None"
    by (simp_all add: add_user_to_g_def ex_anon_def)
  from mutating_routes_guarded [OF m1 p, of ex_env ex_anon] g
  have a: "dispatch ex_env (Add_follow 2) ex_post ex_anon =
     (Handled (Redirect ''/''), flash ''Access unauthorized.'' ''danger'' ex_anon)"
    by simp
  from mutating_routes_guarded [OF m2 p, of ex_env ex_anon] n t
  have b: "dispatch ex_env Logout ex_post ex_anon =
     (Handled (Redirect ''/login''), flash ''Successfully logged out'' ''success'' ex_anon)"
    by simp
  from mutating_routes_guarded [OF m3 p', of ex_env ex_alice_in] t'
  have c: "db (snd (dispatch ex_env (Messages_destroy 1) ex_post_bad_token ex_alice_in)) = db ex_alice_in
   \<and> session (snd (dispatch ex_env (Messages_destroy 1) ex_post_bad_token ex_alice_in)) =
       session ex_alice_in"
    by blast
  from a b c show ?thesis by blast
qed

text \<open>
  The wording of the specification, a redirect to \<open>/\<close> for every mutating route,
  fails at \<open>/logout\<close>: an anonymous POST with a validated token is redirected to
  \<open>/login\<close>, not to \<open>/\<close>, and the flashed message is the one of a successful
  logout.
\<close>

theorem logout_unauthenticated_counterexample:
  "add_user_to_g ex_anon = None
   \<and> fst (dispatch ex_env Logout ex_post ex_anon) = Handled (Redirect ''/login'')
   \<and> fst (dispatch ex_env Logout ex_post ex_anon) \<noteq> Handled (Redirect ''/'')
   \<and> flashes (snd (dispatch ex_env Logout ex_post ex_anon)) =
       [(''Successfully logged out'', ''success'')]"
  by (simp add: dispatch_def view_def post_only_def get_only_def logout_def add_user_to_g_def
        validate_on_submit_token_def do_logout_def flash_def ex_anon_def ex_post_def)

section \<open>The homepage\<close>

text \<open>
  C4. \<open>GET /\<close> without a current user renders \<open>home-anon.html\<close> with no message
  list. With a current user it renders \<open>home.html\<close> with at most 100 messages, in
  descending order of timestamp, every one of them a row of the message table written
  by the user or by somebody the user follows.
\<close>

theorem homepage_messages:
  assumes "\<not> is_post req"
  shows "(add_user_to_g s = None \<longrightarrow>
            dispatch env Homepage req s = (Handled (Render ''home-anon.html'' []), s))
       \<and> (\<forall>gu. add_user_to_g s = Some gu \<longrightarrow>
            (\<exists>msgs ids.
               dispatch env Homepage req s =
                 (Handled (Render ''home.html''
                    [(''messages'', CMessages msgs), (''liked_msg_ids'', CIdSet ids)]), s)
             \<and> length msgs \<le> 100
             \<and> sorted_wrt (\<lambda>a b. timestamp a \<ge> timestamp b) msgs
             \<and> (\<forall>m \<in> set msgs.
                  m \<in> set (messages (db s))
                \<and> (user_id m = uid gu \<or> user_id m \<in> set (map uid (following (db s) gu))))))"
proof (intro conjI allI impI)
  assume "add_user_to_g s = None"
  with assms show "dispatch env Homepage req s = (Handled (Render ''home-anon.html'' []), s)"
    by (simp add: dispatch_def view_def post_only_def get_only_def homepage_def)
next
  fix gu
  assume gu: "add_user_to_g s = Some gu"
  let ?keep = "\<lambda>m. user_id m \<in> set (map uid (following (db s) gu)) \<or> user_id m = uid gu"
  let ?sorted = "sort_key (\<lambda>m. - timestamp m) (filter ?keep (messages (db s)))"
  let ?msgs = "take 100 ?sorted"
  let ?ids = "set (map mid (liked_messages (db s) gu))"
  have run: "dispatch env Homepage req s =
                 (Handled (Render ''home.html''
                    [(''messages'', CMessages ?msgs), (''liked_msg_ids'', CIdSet ?ids)]), s)"
    using assms gu
    by (simp add: dispatch_def view_def post_only_def get_only_def homepage_def Let_def)
  have len: "length ?msgs \<le> 100" by simp
  have "sorted (map (\<lambda>m. - timestamp m) ?sorted)"
    by (rule sorted_sort_key)
  then have "sorted_wrt (\<lambda>a b. timestamp a \<ge> timestamp b) ?sorted"
    by (simp add: sorted_map)
  then have srt: "sorted_wrt (\<lambda>a b. timestamp a \<ge> timestamp b) ?msgs"
    by (rule sorted_wrt_take)
  have mem: "\<forall>m \<in> set ?msgs. m \<in> set (messages (db s))
                \<and> (user_id m = uid gu \<or> user_id m \<in> set (map uid (following (db s) gu)))"
  proof
    fix m assume "m \<in> set ?msgs"
    then have "m \<in> set ?sorted" by (rule in_set_takeD)
    then show "m \<in> set (messages (db s))
                \<and> (user_id m = uid gu \<or> user_id m \<in> set (map uid (following (db s) gu)))"
      by auto
  qed
  from run len srt mem
  show "\<exists>msgs ids.
               dispatch env Homepage req s =
                 (Handled (Render ''home.html''
                    [(''messages'', CMessages msgs), (''liked_msg_ids'', CIdSet ids)]), s)
             \<and> length msgs \<le> 100
             \<and> sorted_wrt (\<lambda>a b. timestamp a \<ge> timestamp b) msgs
             \<and> (\<forall>m \<in> set msgs.
                  m \<in> set (messages (db s))
                \<and> (user_id m = uid gu \<or> user_id m \<in> set (map uid (following (db s) gu))))"
    by blast
qed


theorem homepage_messages_witness:
  "dispatch ex_env Homepage ex_get ex_anon = (Handled (Render ''home-anon.html'' []), ex_anon)
   \<and> dispatch ex_env Homepage ex_get ex_alice_in =
       (Handled (Render ''home.html''
          [(''messages'', CMessages [ex_msg3, ex_msg2, ex_msg1]), (''liked_msg_ids'', CIdSet {})]),
        ex_alice_in)
   \<and> length [ex_msg3, ex_msg2, ex_msg1] \<le> 100
   \<and> sorted_wrt (\<lambda>a b. timestamp a \<ge> timestamp b) [ex_msg3, ex_msg2, ex_msg1]"
proof -
  have p: "\<not> is_post ex_get"
    by (simp add: ex_get_def ex_post_def)
  have anon: "add_user_to_g ex_anon = None"
    by (simp add: add_user_to_g_def ex_anon_def)
  have alice: "add_user_to_g ex_alice_in = Some ex_alice"
    by (simp add: add_user_to_g_def query_get_user_def ex_alice_in_def ex_db_def ex_alice_def)
  have run: "dispatch ex_env Homepage ex_get ex_alice_in =
       (Handled (Render ''home.html''
          [(''messages'', CMessages [ex_msg3, ex_msg2, ex_msg1]), (''liked_msg_ids'', CIdSet {})]),
        ex_alice_in)"
    by (simp add: dispatch_def view_def post_only_def get_only_def homepage_def Let_def
          add_user_to_g_def query_get_user_def following_def liked_messages_def
          ex_get_def ex_post_def ex_alice_in_def ex_db_def ex_alice_def ex_bob_def
          ex_msg1_def ex_msg2_def ex_msg3_def)
  from homepage_messages [OF p, of ex_anon ex_env] anon
  have a: "dispatch ex_env Homepage ex_get ex_anon = (Handled (Render ''home-anon.html'' []), ex_anon)"
    by blast
  from homepage_messages [OF p, of ex_alice_in ex_env] alice
  obtain msgs ids where
    eq: "dispatch ex_env Homepage ex_get ex_alice_in =
           (Handled (Render ''home.html''
              [(''messages'', CMessages msgs), (''liked_msg_ids'', CIdSet ids)]), ex_alice_in)"
    and len: "length msgs \<le> 100"
    and srt: "sorted_wrt (\<lambda>a b. timestamp a \<ge> timestamp b) msgs"
    by blast
  from eq run have "msgs = [ex_msg3, ex_msg2, ex_msg1]" by simp
  with len srt a run show ?thesis by blast
qed

section \<open>Signup with a name or an address that is taken\<close>

text \<open>
  C5. When the signup form validates and its username or email is the one of an existing
  user, the handler catches the uniqueness violation: it flashes
  "Username already taken", renders the signup form again, and leaves the user table
  and the session as they were. No error leaves the view.
\<close>

theorem signup_duplicate_caught:
  assumes "validate_on_submit req"
    and "\<exists>u \<in> set (users (db s)).
           username u = f_username (form_data req) \<or> email u = f_email (form_data req)"
  shows "dispatch env Signup req s =
           (Handled (Render ''users/signup.html'' [(''form'', CForm (form_data req))]),
            flash ''Username already taken'' ''danger'' s)
       \<and> users (db (snd (dispatch env Signup req s))) = users (db s)
       \<and> session (snd (dispatch env Signup req s)) = session s"
proof -
  have "User_signup env (f_username (form_data req)) (f_password (form_data req))
          (f_email (form_data req))
          (or_default (f_image_url (form_data req)) (default_image_url env)) (db s)
        = Inl IntegrityError"
    using assms(2) by (simp add: User_signup_def)
  with assms(1) have run: "dispatch env Signup req s =
           (Handled (Render ''users/signup.html'' [(''form'', CForm (form_data req))]),
            flash ''Username already taken'' ''danger'' s)"
    by (simp add: dispatch_def view_def post_only_def get_only_def signup_def)
  show ?thesis
    unfolding run by (simp add: flash_def)
qed

theorem signup_duplicate_caught_witness:
  "dispatch ex_env Signup ex_post ex_anon =
     (Handled (Render ''users/signup.html'' [(''form'', CForm (form_data ex_post))]),
      flash ''Username already taken'' ''danger'' ex_anon)
   \<and> users (db (snd (dispatch ex_env Signup ex_post ex_anon))) = [ex_alice, ex_bob]"
proof -
  have v: "validate_on_submit ex_post"
    by (simp add: validate_on_submit_def ex_post_def)
  have d: "\<exists>u \<in> set (users (db ex_anon)).
           username u = f_username (form_data ex_post) \<or> email u = f_email (form_data ex_post)"
    by (simp add: ex_anon_def ex_db_def ex_alice_def ex_post_def ex_form_def)
  have us: "users (db ex_anon) = [ex_alice, ex_bob]"
    by (simp add: ex_anon_def ex_db_def)
  from signup_duplicate_caught [OF v d, of ex_env] show ?thesis
    unfolding us by blast
qed

section \<open>Deleting a message\<close>

text \<open>
  C6. For a logged-in user, a validated token and an existing message,
  \<open>POST /messages/<id>/delete\<close> deletes the message and the likes that point at it,
  and redirects to the page of the logged-in user, whoever wrote the message: the
  handler compares no \<open>user_id\<close>.
\<close>

theorem messages_destroy_any_author:
  assumes "add_user_to_g s = Some gu" and "is_post req" and "csrf_ok req"
    and "query_get_message (db s) i = Some m"
  shows "dispatch env (Messages_destroy i) req s =
           (Handled (Redirect (''/users/'' @ str_nat (uid gu))),
            s\<lparr>db := (db s)\<lparr>messages := filter (\<lambda>x. mid x \<noteq> i) (messages (db s)),
                            likes := filter (\<lambda>(u, j). j \<noteq> i) (likes (db s))\<rparr>\<rparr>)
       \<and> query_get_message (db (snd (dispatch env (Messages_destroy i) req s))) i = None"
proof -
  have mid: "mid m = i" using assms(4) by (rule query_get_message_mid)
  have run: "dispatch env (Messages_destroy i) req s =
           (Handled (Redirect (''/users/'' @ str_nat (uid gu))),
            s\<lparr>db := (db s)\<lparr>messages := filter (\<lambda>x. mid x \<noteq> i) (messages (db s)),
                            likes := filter (\<lambda>(u, j). j \<noteq> i) (likes (db s))\<rparr>\<rparr>)"
    using assms mid
    by (simp add: dispatch_def view_def post_only_def get_only_def messages_destroy_def
          validate_on_submit_token_def session_delete_message_def)
  show ?thesis
    unfolding run by (simp add: query_get_message_deleted)
qed

theorem messages_destroy_any_author_witness:
  "query_get_message (db (snd (dispatch ex_env (Messages_destroy 2) ex_post ex_bob_in))) 2 = None
   \<and> fst (dispatch ex_env (Messages_destroy 2) ex_post ex_bob_in) =
       Handled (Redirect (''/users/'' @ str_nat 2))"
proof -
  have g: "add_user_to_g ex_bob_in = Some ex_bob"
    by (simp add: add_user_to_g_def query_get_user_def ex_bob_in_def ex_db_def ex_alice_def ex_bob_def)
  have p: "is_post ex_post" and t: "csrf_ok ex_post"
    by (simp_all add: ex_post_def)
  have q: "query_get_message (db ex_bob_in) 2 = Some ex_msg2"
    by (simp add: query_get_message_def ex_bob_in_def ex_db_def ex_msg1_def ex_msg2_def)
  have u: "uid ex_bob = 2" by (simp add: ex_bob_def)
  note th = messages_destroy_any_author [OF g p t q, of ex_env, unfolded u]
  from th have gone: "query_get_message (db (snd (dispatch ex_env (Messages_destroy 2) ex_post ex_bob_in))) 2 = None"
    by (rule conjunct2)
  from th have "fst (dispatch ex_env (Messages_destroy 2) ex_post ex_bob_in) =
       Handled (Redirect (''/users/'' @ str_nat 2))"
    by (simp only: fst_conv)
  with gone show ?thesis by (rule conjI)
qed

text \<open>
  The wording of the specification, deletion by the owner only, fails when the
  logged-in user is not the author: Bob deletes the first message of Alice.
\<close>

theorem messages_destroy_not_owner_counterexample:
  "add_user_to_g ex_bob_in = Some ex_bob
   \<and> query_get_message (db ex_bob_in) 1 = Some ex_msg1
   \<and> user_id ex_msg1 \<noteq> uid ex_bob
   \<and> query_get_message (db (snd (dispatch ex_env (Messages_destroy 1) ex_post ex_bob_in))) 1 = None"
  by (simp add: dispatch_def view_def post_only_def get_only_def messages_destroy_def
        add_user_to_g_def validate_on_submit_token_def session_delete_message_def
        query_get_user_def query_get_message_def
        ex_bob_in_def ex_db_def ex_alice_def ex_bob_def ex_post_def ex_msg1_def ex_msg2_def ex_msg3_def)

section \<open>Following oneself\<close>

text \<open>
  C7. The handler does not prevent a self-follow: for a logged-in user and a validated
  token, \<open>POST /users/follow/<id>\<close> with the user's own id redirects to the user's
  following page and leaves the edge from the user to the same user in the follow
  table. The edge is appended when the table does not hold it yet; when it does, the
  table is not changed.
\<close>

theorem add_follow_self_edge:
  assumes "add_user_to_g s = Some gu" and "is_post req" and "csrf_ok req"
  shows "dispatch env (Add_follow (uid gu)) req s =
           (Handled (Redirect (''/users/'' @ str_nat (uid gu) @ ''/following'')),
            s\<lparr>db := (db s)\<lparr>follows :=
                   (if (uid gu, uid gu) \<in> set (follows (db s)) then follows (db s)
                    else follows (db s) @ [(uid gu, uid gu)])\<rparr>\<rparr>)
       \<and> (uid gu, uid gu) \<in> set (follows (db (snd (dispatch env (Add_follow (uid gu)) req s))))"
proof -
  have row: "query_get_user (db s) (uid gu) = Some gu"
    using assms(1) by (rule add_user_to_g_row)
  have mem: "gu \<in> set (following (db s) gu) \<longleftrightarrow> (uid gu, uid gu) \<in> set (follows (db s))"
    using row by (rule user_in_following)
  have run: "dispatch env (Add_follow (uid gu)) req s =
           (Handled (Redirect (''/users/'' @ str_nat (uid gu) @ ''/following'')),
            s\<lparr>db := (db s)\<lparr>follows :=
                   (if (uid gu, uid gu) \<in> set (follows (db s)) then follows (db s)
                    else follows (db s) @ [(uid gu, uid gu)])\<rparr>\<rparr>)"
    using assms row
    by (simp add: dispatch_def view_def post_only_def get_only_def add_follow_def
          validate_on_submit_token_def following_append_def mem)
  show ?thesis
    unfolding run by simp
qed

theorem add_follow_self_edge_witness:
  "follows (db (snd (dispatch ex_env (Add_follow 1) ex_post ex_alice_in))) = [(2, 1), (1, 1)]
   \<and> follows (db (snd (dispatch ex_env (Add_follow 1) ex_post ex_alice_self))) = [(2, 1), (1, 1)]
   \<and> fst (dispatch ex_env (Add_follow 1) ex_post ex_alice_self) =
       Handled (Redirect (''/users/'' @ str_nat 1 @ ''/following''))"
proof -
  have g: "add_user_to_g ex_alice_in = Some ex_alice"
    by (simp add: add_user_to_g_def query_get_user_def ex_alice_in_def ex_db_def ex_alice_def)
  have g': "add_user_to_g ex_alice_self = Some ex_alice"
    by (simp add: add_user_to_g_def query_get_user_def ex_alice_self_def ex_db_def ex_alice_def)
  have p: "is_post ex_post" and t: "csrf_ok ex_post"
    by (simp_all add: ex_post_def)
  have u: "uid ex_alice = 1" by (simp add: ex_alice_def)
  have f: "follows (db ex_alice_in) = [(2, 1)]"
    by (simp add: ex_alice_in_def ex_db_def)
  have f': "follows (db ex_alice_self) = [(2, 1), (1, 1)]"
    by (simp add: ex_alice_self_def ex_db_def)
  note absent = add_follow_self_edge [OF g p t, of ex_env, unfolded u, THEN conjunct1]
  note present = add_follow_self_edge [OF g' p t, of ex_env, unfolded u, THEN conjunct1]
  have a: "follows (db (snd (dispatch ex_env (Add_follow 1) ex_post ex_alice_in))) = [(2, 1), (1, 1)]"
    unfolding absent by (simp add: f)
  have b: "follows (db (snd (dispatch ex_env (Add_follow 1) ex_post ex_alice_self))) = [(2, 1), (1, 1)]"
    unfolding present by (simp add: f')
  have c: "fst (dispatch ex_env (Add_follow 1) ex_post ex_alice_self) =
       Handled (Redirect (''/users/'' @ str_nat 1 @ ''/following''))"
    unfolding present by (simp only: fst_conv)
  from a b c show ?thesis by blast
qed

text \<open>
  The wording of the specification, no self-follow, fails for Alice following Alice:
  the edge is not in the table before the request and is in it afterwards.
\<close>

theorem add_follow_self_counterexample:
  "add_user_to_g ex_alice_in = Some ex_alice \<and> uid ex_alice = 1
   \<and> (1, 1) \<notin> set (follows (db ex_alice_in))
   \<and> (1, 1) \<in> set (follows (db (snd (dispatch ex_env (Add_follow 1) ex_post ex_alice_in))))"
  by (simp add: dispatch_def view_def post_only_def get_only_def add_follow_def add_user_to_g_def
        validate_on_submit_token_def following_append_def following_def
        query_get_user_def ex_alice_in_def ex_db_def ex_alice_def ex_bob_def ex_post_def)

section \<open>Lookups of an id that is not there\<close>

text \<open>
  C8. On a request that reaches the lookup (a current user, and a validated token on
  the POST routes), a missing id ends a \<open>get_or_404\<close> lookup with the not-found
  response: \<open>/users/follow/<id>\<close>, \<open>/users/<id>\<close> and the message lookup of the like
  route. A plain \<open>get\<close> hands \<open>None\<close> on instead: \<open>/users/stop-following/<id>\<close>
  passes it to \<open>remove\<close> on the following collection, which raises;
  \<open>/messages/<id>\<close> passes it to the template as the message;
  \<open>/messages/<id>/delete\<close> passes it to \<open>db.session.delete\<close>, which raises. None of
  the three answers with not-found.
\<close>

theorem missing_id_lookups:
  assumes "add_user_to_g s = Some gu"
    and "is_post req" and "csrf_ok req" and "\<not> is_post req'"
  shows "(query_get_user (db s) i = None \<longrightarrow>
            dispatch env (Add_follow i) req s = (Handled Abort404, s)
          \<and> dispatch env (Users_show i) req' s = (Handled Abort404, s)
          \<and> following_remove (db s) gu (query_get_user (db s) i) = Inl ValueError
          \<and> dispatch env (Stop_following i) req s = (Handled (Raises ValueError), s))
       \<and> (query_get_message (db s) j = None \<longrightarrow>
            handle_like_unlike j (uid gu) (Some gu) s = (Abort404, s)
          \<and> dispatch env (Message_like j) req s = (Handled Abort404, s)
          \<and> dispatch env (Messages_show j) req' s =
              (Handled (Render ''messages/show.html''
                 [(''message'', CMessage None),
                  (''likes'', CIds (map mid (liked_messages (db s) gu)))]), s)
          \<and> session_delete_message (db s) (query_get_message (db s) j) = Inl UnmappedInstanceError
          \<and> dispatch env (Messages_destroy j) req s = (Handled (Raises UnmappedInstanceError), s))"
proof (intro conjI impI)
  assume u: "query_get_user (db s) i = None"
  from assms u show "dispatch env (Add_follow i) req s = (Handled Abort404, s)"
    by (simp add: dispatch_def view_def post_only_def get_only_def add_follow_def
          validate_on_submit_token_def)
  from assms u show "dispatch env (Users_show i) req' s = (Handled Abort404, s)"
    by (simp add: dispatch_def view_def post_only_def get_only_def users_show_def)
  from u show rm: "following_remove (db s) gu (query_get_user (db s) i) = Inl ValueError"
    by (simp add: following_remove_def)
  from assms rm show "dispatch env (Stop_following i) req s = (Handled (Raises ValueError), s)"
    by (simp add: dispatch_def view_def post_only_def get_only_def stop_following_def
          validate_on_submit_token_def)
next
  assume m: "query_get_message (db s) j = None"
  from m show helper: "handle_like_unlike j (uid gu) (Some gu) s = (Abort404, s)"
    by (simp add: handle_like_unlike_def)
  from assms helper show "dispatch env (Message_like j) req s = (Handled Abort404, s)"
    by (simp add: dispatch_def view_def post_only_def get_only_def handle_message_like_unlike_def
          validate_on_submit_token_def)
  from assms m show "dispatch env (Messages_show j) req' s =
              (Handled (Render ''messages/show.html''
                 [(''message'', CMessage None),
                  (''likes'', CIds (map mid (liked_messages (db s) gu)))]), s)"
    by (simp add: dispatch_def view_def post_only_def get_only_def messages_show_def)
  from m show del: "session_delete_message (db s) (query_get_message (db s) j) = Inl UnmappedInstanceError"
    by (simp add: session_delete_message_def)
  from assms del show "dispatch env (Messages_destroy j) req s = (Handled (Raises UnmappedInstanceError), s)"
    by (simp add: dispatch_def view_def post_only_def get_only_def messages_destroy_def
          validate_on_submit_token_def)
qed

theorem missing_id_lookups_witness:
  "dispatch ex_env (Add_follow 7) ex_post ex_alice_in = (Handled Abort404, ex_alice_in)
   \<and> dispatch ex_env (Users_show 7) ex_get ex_alice_in = (Handled Abort404, ex_alice_in)
   \<and> dispatch ex_env (Stop_following 7) ex_post ex_alice_in = (Handled (Raises ValueError), ex_alice_in)
   \<and> dispatch ex_env (Message_like 9) ex_post ex_alice_in = (Handled Abort404, ex_alice_in)
   \<and> dispatch ex_env (Messages_show 9) ex_get ex_alice_in =
       (Handled (Render ''messages/show.html''
          [(''message'', CMessage None),
           (''likes'', CIds (map mid (liked_messages (db ex_alice_in) ex_alice)))]), ex_alice_in)
   \<and> dispatch ex_env (Messages_destroy 9) ex_post ex_alice_in =
       (Handled (Raises UnmappedInstanceError), ex_alice_in)"
proof -
  have g: "add_user_to_g ex_alice_in = Some ex_alice"
    by (simp add: add_user_to_g_def query_get_user_def ex_alice_in_def ex_db_def ex_alice_def)
  have p: "is_post ex_post" and t: "csrf_ok ex_post" and p': "\<not> is_post ex_get"
    by (simp_all add: ex_post_def ex_get_def)
  have u: "query_get_user (db ex_alice_in) 7 = None"
    by (simp add: query_get_user_def ex_alice_in_def ex_db_def ex_alice_def ex_bob_def)
  have m: "query_get_message (db ex_alice_in) 9 = None"
    by (simp add: query_get_message_def ex_alice_in_def ex_db_def ex_msg1_def ex_msg2_def ex_msg3_def)
  from missing_id_lookups [OF g p t p', of 7 ex_env 9] u m show ?thesis
    by blast
qed

section \<open>The show routes without a current user\<close>

text \<open>
  C9. Without a current user, \<open>GET /messages/<id>\<close> fails for every id
  with the \<open>AttributeError\<close> of \<open>g.user.liked_messages\<close> on \<open>None\<close>, and so does
  \<open>GET /users/<id>\<close> for the id of an existing user. For an id that names no user,
  \<open>GET /users/<id>\<close> ends with the not-found response of \<open>get_or_404\<close>, which comes
  before the dereference. Neither route renders a page or redirects.
\<close>

theorem anonymous_show_routes:
  assumes "add_user_to_g s = None" and "\<not> is_post req"
  shows "dispatch env (Messages_show i) req s = (Handled (Raises AttributeError), s)
       \<and> dispatch env (Users_show i) req s =
           (case query_get_user (db s) i of
              None \<Rightarrow> (Handled Abort404, s)
            | Some u \<Rightarrow> (Handled (Raises AttributeError), s))"
  using assms
  by (simp add: dispatch_def view_def post_only_def get_only_def messages_show_def users_show_def
        split: option.splits)

theorem anonymous_show_routes_witness:
  "dispatch ex_env (Messages_show 1) ex_get ex_anon = (Handled (Raises AttributeError), ex_anon)
   \<and> dispatch ex_env (Users_show 1) ex_get ex_anon = (Handled (Raises AttributeError), ex_anon)"
proof -
  have g: "add_user_to_g ex_anon = None"
    by (simp add: add_user_to_g_def ex_anon_def)
  have p: "\<not> is_post ex_get"
    by (simp add: ex_get_def ex_post_def)
  have q: "query_get_user (db ex_anon) 1 = Some ex_alice"
    by (simp add: query_get_user_def ex_anon_def ex_db_def ex_alice_def)
  from anonymous_show_routes [OF g p, of ex_env 1] show ?thesis
    unfolding q by simp
qed

text \<open>
  The wording of the specification, an error of the dereference for every anonymous
  request, fails for an id that names no user: the anonymous request ends with
  not-found, and \<open>g.user\<close> is never dereferenced.
\<close>

theorem anonymous_users_show_missing_counterexample:
  "add_user_to_g ex_anon = None
   \<and> dispatch ex_env (Users_show 7) ex_get ex_anon = (Handled Abort404, ex_anon)
   \<and> fst (dispatch ex_env (Users_show 7) ex_get ex_anon) \<noteq> Handled (Raises AttributeError)"
  by (simp add: dispatch_def view_def post_only_def get_only_def users_show_def add_user_to_g_def
        query_get_user_def ex_anon_def ex_db_def ex_alice_def ex_bob_def ex_get_def ex_post_def)

end
